theory Spec2Isabelle
  imports Complex_Main
begin

section \<open>Values, text and exceptions of the Python program\<close>

text \<open>
  The module \<^verbatim>\<open>milestone1.py\<close> defines three exception classes, the helpers
  \<^verbatim>\<open>sanitize_text\<close> and \<^verbatim>\<open>to_float\<close>, and the class \<^verbatim>\<open>WeatherObservation\<close>
  whose eight attributes are assigned through validating property setters.

  Text is modelled as \<^typ>\<open>string\<close>: one \<^typ>\<open>char\<close> is one code point below 256.
  The functions of the Python runtime that the module calls (\<^verbatim>\<open>str.strip\<close>,
  \<^verbatim>\<open>str.join\<close>, \<^verbatim>\<open>str.upper\<close>, \<^verbatim>\<open>isinstance\<close>, \<^verbatim>\<open>float\<close>) are written out
  below as the language reference describes them.
\<close>

subsection \<open>Floating-point numbers\<close>

text \<open>
  A Python \<^verbatim>\<open>float\<close> is a finite binary64 number, an infinity or a NaN. A finite
  number is carried as the real it denotes; the two zeros are not told apart (they
  compare equal in Python). The class only compares and stores floats, so a statement
  about every \<open>Finite x\<close> covers every binary64 number, and a decimal such as
  \<open>48.8566\<close> stands for the float that Python writes that way.
\<close>

datatype pyfloat = Finite real | PosInf | NegInf | NaN

text \<open>Python's \<^verbatim>\<open><=\<close> and \<^verbatim>\<open><\<close> on floats: every comparison with a NaN is false.\<close>

fun fle :: "pyfloat \<Rightarrow> pyfloat \<Rightarrow> bool" where
  "fle NaN y = False"
| "fle x NaN = False"
| "fle NegInf y = True"
| "fle x PosInf = True"
| "fle PosInf y = False"
| "fle x NegInf = False"
| "fle (Finite a) (Finite b) = (a \<le> b)"

fun flt :: "pyfloat \<Rightarrow> pyfloat \<Rightarrow> bool" where
  "flt NaN y = False"
| "flt x NaN = False"
| "flt PosInf y = False"
| "flt x NegInf = False"
| "flt NegInf y = True"
| "flt x PosInf = True"
| "flt (Finite a) (Finite b) = (a < b)"

subsection \<open>Values\<close>

text \<open>
  The values a caller can pass: what decoding a JSON response yields
  (\<^verbatim>\<open>None\<close>, \<^verbatim>\<open>bool\<close>, \<^verbatim>\<open>int\<close>, \<^verbatim>\<open>float\<close>, \<^verbatim>\<open>str\<close>, \<^verbatim>\<open>list\<close>, \<^verbatim>\<open>dict\<close>).
\<close>

datatype pyval =
    VNone
  | VBool bool
  | VInt int
  | VFloat pyfloat
  | VStr string
  | VList "pyval list"
  | VDict "(string \<times> pyval) list"

subsection \<open>Exceptions\<close>

text \<open>
  The module's own classes (\<^verbatim>\<open>WeatherAPIError\<close> and its two subclasses), each
  with its message, and the built-in exceptions that the modelled calls can raise.
\<close>

datatype pyexc =
    WeatherAPIError string
  | LocationNotFoundError string
  | InvalidDataError string
  | TypeError
  | ValueError
  | OverflowError
  | AttributeError

text \<open>\<^verbatim>\<open>isinstance(e, WeatherAPIError)\<close>: the base class and both subclasses.\<close>

fun is_WeatherAPIError :: "pyexc \<Rightarrow> bool" where
  "is_WeatherAPIError (WeatherAPIError m) = True"
| "is_WeatherAPIError (LocationNotFoundError m) = True"
| "is_WeatherAPIError (InvalidDataError m) = True"
| "is_WeatherAPIError e = False"

subsection \<open>Text operations of the runtime\<close>

text \<open>
  \<^verbatim>\<open>str.isspace\<close> on one character, for the code points below 256: tab, line feed,
  vertical tab, form feed, carriage return, the separators 28 to 31, space, NEL (133)
  and the no-break space (160).
\<close>

definition py_isspace :: "char \<Rightarrow> bool" where
  "py_isspace c =
     (let n = (of_char c :: nat)
      in (9 \<le> n \<and> n \<le> 13) \<or> (28 \<le> n \<and> n \<le> 32) \<or> n = 133 \<or> n = 160)"

text \<open>\<^verbatim>\<open>s.strip()\<close>: drop the leading whitespace, then the trailing whitespace.\<close>

definition lstrip :: "string \<Rightarrow> string" where
  "lstrip s = dropWhile py_isspace s"

definition rstrip :: "string \<Rightarrow> string" where
  "rstrip s = rev (dropWhile py_isspace (rev s))"

definition strip :: "string \<Rightarrow> string" where
  "strip s = rstrip (lstrip s)"

text \<open>
  \<^verbatim>\<open>sep.join(xs)\<close> for a sequence of strings, and the sequence that iterating over
  a string yields: its characters, each a string of length one.
\<close>

fun join :: "string \<Rightarrow> string list \<Rightarrow> string" where
  "join sep [] = []"
| "join sep [x] = x"
| "join sep (x # y # ys) = x @ sep @ join sep (y # ys)"

definition chars :: "string \<Rightarrow> string list" where
  "chars s = map (\<lambda>c. [c]) s"

text \<open>
  \<^verbatim>\<open>s.upper()\<close> maps every character to its upper-case form. Among the code points
  below 256, the letters a to z and the letters 224 to 254 other than the division sign
  247 move down by 32, and the sharp s (223) becomes the two letters \<^verbatim>\<open>SS\<close>. The
  micro sign (181) and the y with diaeresis (255) have upper-case forms above 255
  (U+039C and U+0178), which a \<^typ>\<open>char\<close> cannot hold: the model leaves these two as
  they are, and nothing below depends on them beyond the result not being empty.
  Every other character is its own upper-case form.
\<close>

definition upper_char :: "char \<Rightarrow> string" where
  "upper_char c =
     (let n = (of_char c :: nat)
      in if (97 \<le> n \<and> n \<le> 122) \<or> (224 \<le> n \<and> n \<le> 254 \<and> n \<noteq> 247)
         then [char_of (n - 32)]
         else if n = 223 then ''SS''
         else [c])"

definition upper :: "string \<Rightarrow> string" where
  "upper s = concat (map upper_char s)"

text \<open>\<^verbatim>\<open>isinstance(value, str)\<close>.\<close>

fun isinstance_str :: "pyval \<Rightarrow> bool" where
  "isinstance_str (VStr s) = True"
| "isinstance_str v = False"

section \<open>The helpers\<close>

text \<open>
  \<^verbatim>\<open>
  def sanitize_text(s: str) -> str:
      s = s.strip()
      s = " ".join(s.strip())
      return s
  \<close>
  The annotation is not enforced: called on a value that is not text, the first
  line raises \<^verbatim>\<open>AttributeError\<close>, since no other value of \<^typ>\<open>pyval\<close> has a
  \<^verbatim>\<open>strip\<close> method.
\<close>

fun sanitize_text :: "pyval \<Rightarrow> pyexc + string" where
  "sanitize_text (VStr s) =
     (let s1 = strip s;
          s2 = join '' '' (chars (strip s1))
      in Inr s2)"
| "sanitize_text v = Inl AttributeError"

subsection \<open>The built-in \<^verbatim>\<open>float\<close>\<close>

text \<open>
  \<^verbatim>\<open>float(x)\<close> returns a float unchanged, converts a \<^verbatim>\<open>bool\<close> or an \<^verbatim>\<open>int\<close>
  to the nearest binary64 number (ties to even; \<^verbatim>\<open>OverflowError\<close> when the integer
  is too large), parses text (\<^verbatim>\<open>ValueError\<close> when it is not a float literal) and
  raises \<^verbatim>\<open>TypeError\<close> on \<^verbatim>\<open>None\<close>, a list or a dict.
\<close>

text \<open>\<^verbatim>\<open>int.bit_length\<close> of a natural number.\<close>

fun bit_length :: "nat \<Rightarrow> nat" where
  "bit_length n = (if n = 0 then 0 else Suc (bit_length (n div 2)))"

declare bit_length.simps [simp del]

text \<open>The integer nearest to \<open>a / b\<close>, ties to the even one (\<open>b\<close> positive).\<close>

definition round_half_even :: "nat \<Rightarrow> nat \<Rightarrow> nat" where
  "round_half_even a b =
     (let q = a div b; r = a mod b
      in if b < 2 * r \<or> (2 * r = b \<and> odd q) then q + 1 else q)"

text \<open>The exponent \<open>k\<close> with \<open>2^k \<le> a / b < 2^(k+1)\<close> (\<open>a\<close> and \<open>b\<close> positive).\<close>

definition ilog2_quot :: "nat \<Rightarrow> nat \<Rightarrow> int" where
  "ilog2_quot a b =
     (let k = int (bit_length a) - int (bit_length b)
      in if (if 0 \<le> k then b * 2 ^ nat k \<le> a else b \<le> a * 2 ^ nat (- k))
         then k else k - 1)"

text \<open>
  The binary64 number nearest to \<open>a / b\<close>, as a pair \<open>(n, e)\<close> denoting \<open>n * 2^e\<close>:
  53 significant bits, so \<open>n \<le> 2^53\<close>, and the least exponent of the last bit is
  \<open>-1074\<close>. \<open>None\<close> when the rounded magnitude reaches \<open>2^1024\<close>, which needs a
  positive exponent.
\<close>

definition round_binary64 :: "nat \<Rightarrow> nat \<Rightarrow> (nat \<times> int) option" where
  "round_binary64 a b =
     (if a = 0 then Some (0, 0)
      else
        let e = max (ilog2_quot a b - 52) (- 1074);
            n = (if 0 \<le> e then round_half_even a (b * 2 ^ nat e)
                 else round_half_even (a * 2 ^ nat (- e)) b)
        in if 0 \<le> e \<and> 2 ^ 1024 \<le> n * 2 ^ nat e then None else Some (n, e))"

text \<open>The real number \<open>n * 2^e\<close>.\<close>

definition ldexp :: "nat \<Rightarrow> int \<Rightarrow> real" where
  "ldexp n e = (if 0 \<le> e then real n * 2 ^ nat e else real n / 2 ^ nat (- e))"

definition float_of_int :: "int \<Rightarrow> pyexc + pyfloat" where
  "float_of_int i =
     (case round_binary64 (nat \<bar>i\<bar>) 1 of
        None \<Rightarrow> Inl OverflowError
      | Some (n, e) \<Rightarrow> Inr (Finite (if i < 0 then - ldexp n e else ldexp n e)))"

text \<open>
  The text that \<^verbatim>\<open>float\<close> accepts, once the whitespace at both ends is removed:
  \<^verbatim>\<open>
  floatvalue  ::= [sign] (floatnumber | infinity | nan)
  floatnumber ::= number [exponent]
  number      ::= [digitpart] "." digitpart | digitpart ["."]
  exponent    ::= ("e" | "E") [sign] digitpart
  digitpart   ::= digit (["_"] digit)*
  \<close>
  with \<^verbatim>\<open>inf\<close>, \<^verbatim>\<open>infinity\<close> and \<^verbatim>\<open>nan\<close> in any letter case.
\<close>

definition is_digit :: "char \<Rightarrow> bool" where
  "is_digit c = (let n = (of_char c :: nat) in 48 \<le> n \<and> n \<le> 57)"

definition digit_val :: "char \<Rightarrow> nat" where
  "digit_val c = of_char c - 48"

definition nat_of_digits :: "string \<Rightarrow> nat" where
  "nat_of_digits ds = foldl (\<lambda>n c. 10 * n + digit_val c) 0 ds"

definition lower_char :: "char \<Rightarrow> char" where
  "lower_char c =
     (let n = (of_char c :: nat)
      in if 65 \<le> n \<and> n \<le> 90 then char_of (n + 32) else c)"

text \<open>The longest \<^verbatim>\<open>digitpart\<close> at the front: its digits, and the text after it.\<close>

fun digitpart :: "string \<Rightarrow> string \<times> string" where
  "digitpart [] = ([], [])"
| "digitpart (c # cs) =
     (if \<not> is_digit c then ([], c # cs)
      else
        (case cs of
           u # d # r \<Rightarrow>
             if u = CHR ''_'' \<and> is_digit d
             then (let (ds, rest) = digitpart (d # r) in (c # ds, rest))
             else (let (ds, rest) = digitpart cs in (c # ds, rest))
         | _ \<Rightarrow> (let (ds, rest) = digitpart cs in (c # ds, rest))))"

definition parse_sign :: "string \<Rightarrow> bool \<times> string" where
  "parse_sign s =
     (case s of
        [] \<Rightarrow> (False, s)
      | c # r \<Rightarrow>
          if c = CHR ''-'' then (True, r)
          else if c = CHR ''+'' then (False, r)
          else (False, s))"

text \<open>The text after the number: nothing (exponent 0), or an exponent and nothing more.\<close>

definition parse_exponent :: "string \<Rightarrow> int option" where
  "parse_exponent s =
     (case s of
        [] \<Rightarrow> Some 0
      | c # r \<Rightarrow>
          if c = CHR ''e'' \<or> c = CHR ''E''
          then (let (neg, r1) = parse_sign r;
                    (ds, r2) = digitpart r1
                in if ds \<noteq> [] \<and> r2 = []
                   then Some (if neg then - int (nat_of_digits ds) else int (nat_of_digits ds))
                   else None)
          else None)"

text \<open>A \<^verbatim>\<open>floatnumber\<close> as a pair \<open>(m, x)\<close> denoting \<open>m * 10^x\<close>.\<close>

definition parse_floatnumber :: "string \<Rightarrow> (nat \<times> int) option" where
  "parse_floatnumber s =
     (let (ip, r1) = digitpart s
      in case r1 of
           [] \<Rightarrow> if ip = [] then None else Some (nat_of_digits ip, 0)
         | c # r2 \<Rightarrow>
             if c = CHR ''.''
             then (let (fp, r3) = digitpart r2
                   in if ip = [] \<and> fp = [] then None
                      else map_option (\<lambda>x. (nat_of_digits (ip @ fp), x - int (length fp)))
                             (parse_exponent r3))
             else if ip = [] then None
             else map_option (\<lambda>x. (nat_of_digits ip, x)) (parse_exponent r1))"

text \<open>
  The whitespace that \<^verbatim>\<open>float\<close> removes at both ends is not that of
  \<^verbatim>\<open>str.strip\<close>: the conversion first turns every whitespace character above 127
  into a space and then skips the whitespace of the C locale, so the separators 28
  to 31 stay and make the text invalid.
\<close>

definition float_isspace :: "char \<Rightarrow> bool" where
  "float_isspace c =
     (let n = (of_char c :: nat)
      in (9 \<le> n \<and> n \<le> 13) \<or> n = 32 \<or> n = 133 \<or> n = 160)"

definition float_strip :: "string \<Rightarrow> string" where
  "float_strip s = rev (dropWhile float_isspace (rev (dropWhile float_isspace s)))"

definition float_of_str :: "string \<Rightarrow> pyfloat option" where
  "float_of_str s =
     (let (neg, r) = parse_sign (float_strip s);
          l = map lower_char r
      in if l = ''inf'' \<or> l = ''infinity'' then Some (if neg then NegInf else PosInf)
         else if l = ''nan'' then Some NaN
         else
           (case parse_floatnumber r of
              None \<Rightarrow> None
            | Some (m, x) \<Rightarrow>
                (case (if 0 \<le> x then round_binary64 (m * 10 ^ nat x) 1
                       else round_binary64 m (10 ^ nat (- x))) of
                   None \<Rightarrow> Some (if neg then NegInf else PosInf)
                 | Some (n, e) \<Rightarrow>
                     Some (Finite (if neg then - ldexp n e else ldexp n e)))))"

fun py_float :: "pyval \<Rightarrow> pyexc + pyfloat" where
  "py_float (VFloat x) = Inr x"
| "py_float (VInt i) = float_of_int i"
| "py_float (VBool b) = Inr (Finite (if b then 1 else 0))"
| "py_float (VStr s) = (case float_of_str s of None \<Rightarrow> Inl ValueError | Some x \<Rightarrow> Inr x)"
| "py_float VNone = Inl TypeError"
| "py_float (VList xs) = Inl TypeError"
| "py_float (VDict kvs) = Inl TypeError"

text \<open>
  \<^verbatim>\<open>
  def to_float(name: str, value: Any) -> float:
      try:
          return float(value)
      except (TypeError, ValueError):
          raise InvalidDataError(f"{name} must be a number.")
  \<close>
  Only \<^verbatim>\<open>TypeError\<close> and \<^verbatim>\<open>ValueError\<close> are caught; any other exception of
  \<^verbatim>\<open>float\<close> leaves \<^verbatim>\<open>to_float\<close> as it is.
\<close>

definition to_float :: "string \<Rightarrow> pyval \<Rightarrow> pyexc + pyfloat" where
  "to_float name v =
     (case py_float v of
        Inr x \<Rightarrow> Inr x
      | Inl TypeError \<Rightarrow> Inl (InvalidDataError (name @ '' must be a number.''))
      | Inl ValueError \<Rightarrow> Inl (InvalidDataError (name @ '' must be a number.''))
      | Inl e \<Rightarrow> Inl e)"

section \<open>The class \<^verbatim>\<open>WeatherObservation\<close>\<close>

text \<open>
  The instance state: the eight private attributes \<^verbatim>\<open>__city\<close> to \<^verbatim>\<open>__notes\<close>.
  An attribute exists only once it has been assigned (the annotations in the class
  body create nothing), so every field is an option, \<open>None\<close> for "not assigned yet".
  The attribute \<^verbatim>\<open>__notes\<close> holds \<^verbatim>\<open>None\<close> or text, hence an option inside.
\<close>

record WeatherObservation =
  p_city :: "string option"
  p_country :: "string option"
  p_latitude :: "pyfloat option"
  p_longitude :: "pyfloat option"
  p_temperature_c :: "pyfloat option"
  p_windspeed_kmh :: "pyfloat option"
  p_observation_time :: "string option"
  p_notes :: "string option option"

text \<open>
  A method call takes the instance and returns what it raised or returned, together
  with the instance as the call left it: an exception does not undo assignments made
  before it.
\<close>

type_synonym 'a call = "WeatherObservation \<Rightarrow> (pyexc + 'a) \<times> WeatherObservation"

text \<open>Two statements in sequence: the second runs only if the first raised nothing.\<close>

definition and_then :: "unit call \<Rightarrow> unit call \<Rightarrow> unit call" where
  "and_then f g self =
     (case f self of
        (Inl e, self') \<Rightarrow> (Inl e, self')
      | (Inr u, self') \<Rightarrow> g self')"

subsection \<open>Property getters\<close>

text \<open>
  Each getter returns the private attribute; reading an attribute that was never
  assigned raises \<^verbatim>\<open>AttributeError\<close>.
\<close>

definition city_getter :: "WeatherObservation \<Rightarrow> pyexc + pyval" where
  "city_getter self = (case p_city self of None \<Rightarrow> Inl AttributeError | Some s \<Rightarrow> Inr (VStr s))"

definition country_getter :: "WeatherObservation \<Rightarrow> pyexc + pyval" where
  "country_getter self =
     (case p_country self of None \<Rightarrow> Inl AttributeError | Some s \<Rightarrow> Inr (VStr s))"

definition latitude_getter :: "WeatherObservation \<Rightarrow> pyexc + pyval" where
  "latitude_getter self =
     (case p_latitude self of None \<Rightarrow> Inl AttributeError | Some x \<Rightarrow> Inr (VFloat x))"

definition longitude_getter :: "WeatherObservation \<Rightarrow> pyexc + pyval" where
  "longitude_getter self =
     (case p_longitude self of None \<Rightarrow> Inl AttributeError | Some x \<Rightarrow> Inr (VFloat x))"

definition temperature_c_getter :: "WeatherObservation \<Rightarrow> pyexc + pyval" where
  "temperature_c_getter self =
     (case p_temperature_c self of None \<Rightarrow> Inl AttributeError | Some x \<Rightarrow> Inr (VFloat x))"

definition windspeed_kmh_getter :: "WeatherObservation \<Rightarrow> pyexc + pyval" where
  "windspeed_kmh_getter self =
     (case p_windspeed_kmh self of None \<Rightarrow> Inl AttributeError | Some x \<Rightarrow> Inr (VFloat x))"

definition observation_time_getter :: "WeatherObservation \<Rightarrow> pyexc + pyval" where
  "observation_time_getter self =
     (case p_observation_time self of None \<Rightarrow> Inl AttributeError | Some s \<Rightarrow> Inr (VStr s))"

definition notes_getter :: "WeatherObservation \<Rightarrow> pyexc + pyval" where
  "notes_getter self =
     (case p_notes self of
        None \<Rightarrow> Inl AttributeError
      | Some None \<Rightarrow> Inr VNone
      | Some (Some s) \<Rightarrow> Inr (VStr s))"

subsection \<open>Property setters\<close>

text \<open>
  \<^verbatim>\<open>
  @city.setter
  def city(self, value: str) -> None:
      if not isinstance(value, str) or not value.strip():
          raise InvalidDataError("City must be a non-empty string")
      self.__city = sanitize_text(value)
  \<close>
  The empty string is the only false string. \<^verbatim>\<open>country\<close> and
  \<^verbatim>\<open>observation_time\<close> have the same shape; \<^verbatim>\<open>country\<close> stores
  \<^verbatim>\<open>sanitize_text(value).upper()\<close>.
\<close>

definition city_setter :: "pyval \<Rightarrow> unit call" where
  "city_setter v self =
     (if (case v of VStr s \<Rightarrow> strip s = [] | _ \<Rightarrow> True)
      then (Inl (InvalidDataError ''City must be a non-empty string''), self)
      else
        (case sanitize_text v of
           Inl e \<Rightarrow> (Inl e, self)
         | Inr t \<Rightarrow> (Inr (), self\<lparr>p_city := Some t\<rparr>)))"

definition country_setter :: "pyval \<Rightarrow> unit call" where
  "country_setter v self =
     (if (case v of VStr s \<Rightarrow> strip s = [] | _ \<Rightarrow> True)
      then (Inl (InvalidDataError ''Country must be a non-empty string''), self)
      else
        (case sanitize_text v of
           Inl e \<Rightarrow> (Inl e, self)
         | Inr t \<Rightarrow> (Inr (), self\<lparr>p_country := Some (upper t)\<rparr>)))"

text \<open>
  \<^verbatim>\<open>
  @latitude.setter
  def latitude(self, value: float) -> None:
      v = to_float("latitude", value)
      if not (-90.0 <= v <= 90.0):
          raise InvalidDataError("Latitude must be between -90 and 90")
      self.__latitude = v
  \<close>
  \<^verbatim>\<open>longitude\<close> (bounds 180, field name \<^verbatim>\<open>"Longitude"\<close>) and \<^verbatim>\<open>temperature_c\<close>
  (bounds \<open>-100\<close> and \<open>70\<close>, field name \<^verbatim>\<open>"Temperature_c"\<close>) have the same shape.
\<close>

definition latitude_setter :: "pyval \<Rightarrow> unit call" where
  "latitude_setter v self =
     (case to_float ''latitude'' v of
        Inl e \<Rightarrow> (Inl e, self)
      | Inr x \<Rightarrow>
          if \<not> (fle (Finite (- 90)) x \<and> fle x (Finite 90))
          then (Inl (InvalidDataError ''Latitude must be between -90 and 90''), self)
          else (Inr (), self\<lparr>p_latitude := Some x\<rparr>))"

definition longitude_setter :: "pyval \<Rightarrow> unit call" where
  "longitude_setter v self =
     (case to_float ''Longitude'' v of
        Inl e \<Rightarrow> (Inl e, self)
      | Inr x \<Rightarrow>
          if \<not> (fle (Finite (- 180)) x \<and> fle x (Finite 180))
          then (Inl (InvalidDataError ''Longitude must be between -180 and 180''), self)
          else (Inr (), self\<lparr>p_longitude := Some x\<rparr>))"

definition temperature_c_setter :: "pyval \<Rightarrow> unit call" where
  "temperature_c_setter v self =
     (case to_float ''Temperature_c'' v of
        Inl e \<Rightarrow> (Inl e, self)
      | Inr x \<Rightarrow>
          if \<not> (fle (Finite (- 100)) x \<and> fle x (Finite 70))
          then (Inl (InvalidDataError ''Temperature seems unrealistic''), self)
          else (Inr (), self\<lparr>p_temperature_c := Some x\<rparr>))"

text \<open>
  \<^verbatim>\<open>
  @windspeed_kmh.setter
  def windspeed_kmh(self, value: float) -> None:
      v = to_float("windspeed_kmh", value)
      if v < 0:
          raise InvalidDataError("Windspeed cannot be negative")
      self.__windspeed_kmh = v
  \<close>
\<close>

definition windspeed_kmh_setter :: "pyval \<Rightarrow> unit call" where
  "windspeed_kmh_setter v self =
     (case to_float ''windspeed_kmh'' v of
        Inl e \<Rightarrow> (Inl e, self)
      | Inr x \<Rightarrow>
          if flt x (Finite 0)
          then (Inl (InvalidDataError ''Windspeed cannot be negative''), self)
          else (Inr (), self\<lparr>p_windspeed_kmh := Some x\<rparr>))"

definition observation_time_setter :: "pyval \<Rightarrow> unit call" where
  "observation_time_setter v self =
     (if (case v of VStr s \<Rightarrow> strip s = [] | _ \<Rightarrow> True)
      then (Inl (InvalidDataError ''Observation time must be a non-empty string''), self)
      else
        (case sanitize_text v of
           Inl e \<Rightarrow> (Inl e, self)
         | Inr t \<Rightarrow> (Inr (), self\<lparr>p_observation_time := Some t\<rparr>)))"

text \<open>
  \<^verbatim>\<open>
  @notes.setter
  def notes(self -> value: Optional[str]) -> None:
      if value is None:
          self.__notes = None
      elif isinstance(value, str):
          self.__notes = sanitize_text(value)
      else:
          raise InvalidDataError("Notes must be a string or None")
  \<close>
  The header has \<^verbatim>\<open>->\<close> between the two parameters where a comma belongs, which
  is not Python: as written, the source defines no such setter. \<open>notes_setter\<close> is the
  body under the header \<^verbatim>\<open>def notes(self, value: Optional[str]) -> None:\<close>, the
  only reading in which \<^verbatim>\<open>__init__\<close>, which assigns \<^verbatim>\<open>self.notes\<close>, can run at
  all. What is proved of it is proved of the body so read, not of the header.
\<close>

definition notes_setter :: "pyval \<Rightarrow> unit call" where
  "notes_setter v self =
     (case v of
        VNone \<Rightarrow> (Inr (), self\<lparr>p_notes := Some None\<rparr>)
      | VStr s \<Rightarrow>
          (case sanitize_text v of
             Inl e \<Rightarrow> (Inl e, self)
           | Inr t \<Rightarrow> (Inr (), self\<lparr>p_notes := Some (Some t)\<rparr>))
      | _ \<Rightarrow> (Inl (InvalidDataError ''Notes must be a string or None''), self))"

definition setters :: "(pyval \<Rightarrow> unit call) list" where
  "setters =
     [city_setter, country_setter, latitude_setter, longitude_setter,
      temperature_c_setter, windspeed_kmh_setter, observation_time_setter, notes_setter]"

subsection \<open>Construction\<close>

text \<open>
  \<^verbatim>\<open>__init__\<close> assigns the eight properties in the order of its parameters, each
  through its setter. The call \<^verbatim>\<open>WeatherObservation(...)\<close> runs it on a fresh
  instance without attributes and returns the instance, or raises what \<^verbatim>\<open>__init__\<close>
  raised, in which case the caller gets no instance. \<^verbatim>\<open>notes\<close> defaults to
  \<^verbatim>\<open>None\<close>.
\<close>

definition init ::
  "pyval \<Rightarrow> pyval \<Rightarrow> pyval \<Rightarrow> pyval \<Rightarrow> pyval \<Rightarrow> pyval \<Rightarrow> pyval \<Rightarrow> pyval \<Rightarrow> unit call" where
  "init city country latitude longitude temperature_c windspeed_kmh observation_time notes =
     and_then (city_setter city)
    (and_then (country_setter country)
    (and_then (latitude_setter latitude)
    (and_then (longitude_setter longitude)
    (and_then (temperature_c_setter temperature_c)
    (and_then (windspeed_kmh_setter windspeed_kmh)
    (and_then (observation_time_setter observation_time)
              (notes_setter notes)))))))"

definition fresh_instance :: WeatherObservation where
  "fresh_instance =
     \<lparr>p_city = None, p_country = None, p_latitude = None, p_longitude = None,
      p_temperature_c = None, p_windspeed_kmh = None, p_observation_time = None,
      p_notes = None\<rparr>"

definition new_WeatherObservation ::
  "pyval \<Rightarrow> pyval \<Rightarrow> pyval \<Rightarrow> pyval \<Rightarrow> pyval \<Rightarrow> pyval \<Rightarrow> pyval \<Rightarrow> pyval option
     \<Rightarrow> pyexc + WeatherObservation" where
  "new_WeatherObservation city country latitude longitude temperature_c windspeed_kmh
       observation_time notes =
     (case init city country latitude longitude temperature_c windspeed_kmh observation_time
             (case notes of None \<Rightarrow> VNone | Some n \<Rightarrow> n) fresh_instance of
        (Inl e, self) \<Rightarrow> Inl e
      | (Inr u, self) \<Rightarrow> Inr self)"

subsection \<open>\<^verbatim>\<open>to_dict\<close>\<close>

text \<open>
  The dict display reads the eight properties in order through their getters; the
  result keeps the insertion order, so it is a list of key-value pairs.
\<close>

fun build_dict ::
  "(string \<times> (WeatherObservation \<Rightarrow> pyexc + pyval)) list \<Rightarrow> WeatherObservation
     \<Rightarrow> pyexc + (string \<times> pyval) list" where
  "build_dict [] self = Inr []"
| "build_dict ((k, g) # rest) self =
     (case g self of
        Inl e \<Rightarrow> Inl e
      | Inr v \<Rightarrow>
          (case build_dict rest self of
             Inl e \<Rightarrow> Inl e
           | Inr d \<Rightarrow> Inr ((k, v) # d)))"

definition to_dict :: "WeatherObservation \<Rightarrow> pyexc + (string \<times> pyval) list" where
  "to_dict self =
     build_dict
       [(''city'', city_getter), (''country'', country_getter),
        (''latitude'', latitude_getter), (''longitude'', longitude_getter),
        (''temperature_c'', temperature_c_getter), (''windspeed_kmh'', windspeed_kmh_getter),
        (''observation_time'', observation_time_getter), (''notes'', notes_getter)]
       self"

subsection \<open>Live instances\<close>

text \<open>
  The instances a caller can hold: returned by a successful construction, and then
  mutated through any setter any number of times, whether the setter raised or not.
\<close>

inductive live :: "WeatherObservation \<Rightarrow> bool" where
  constructed:
    "new_WeatherObservation c k la lo t w ot n = Inr self \<Longrightarrow> live self"
| mutated:
    "live self \<Longrightarrow> f \<in> set setters \<Longrightarrow> live (snd (f v self))"

subsection \<open>Field constraints\<close>

text \<open>
  What the setters' guards establish for an assigned attribute: text that is not
  empty; a float between two bounds by Python's \<^verbatim>\<open><=\<close>; a float that is not
  \<^verbatim>\<open>< 0\<close>; and, for \<^verbatim>\<open>notes\<close>, that the attribute exists (its value is
  \<^verbatim>\<open>None\<close> or text by its type).
\<close>

definition text_ok :: "string option \<Rightarrow> bool" where
  "text_ok a = (case a of None \<Rightarrow> False | Some t \<Rightarrow> t \<noteq> [])"

definition in_bounds :: "real \<Rightarrow> real \<Rightarrow> pyfloat option \<Rightarrow> bool" where
  "in_bounds lo hi a =
     (case a of None \<Rightarrow> False | Some x \<Rightarrow> fle (Finite lo) x \<and> fle x (Finite hi))"

definition not_below_zero :: "pyfloat option \<Rightarrow> bool" where
  "not_below_zero a = (case a of None \<Rightarrow> False | Some x \<Rightarrow> \<not> flt x (Finite 0))"


definition assigned :: "'a option \<Rightarrow> bool" where
  "assigned a = (case a of None \<Rightarrow> False | Some x \<Rightarrow> True)"

definition guarded :: "WeatherObservation \<Rightarrow> bool" where
  "guarded self =
     (text_ok (p_city self) \<and> text_ok (p_country self)
      \<and> in_bounds (- 90) 90 (p_latitude self) \<and> in_bounds (- 180) 180 (p_longitude self)
      \<and> in_bounds (- 100) 70 (p_temperature_c self) \<and> not_below_zero (p_windspeed_kmh self)
      \<and> text_ok (p_observation_time self) \<and> assigned (p_notes self))"

subsection \<open>Valid field values\<close>






section \<open>Properties of the text operations\<close>

lemma rstrip_decomp: "s = rstrip s @ rev (takeWhile py_isspace (rev s))"
proof -
  have "rev (dropWhile py_isspace (rev s)) @ rev (takeWhile py_isspace (rev s))
        = rev (takeWhile py_isspace (rev s) @ dropWhile py_isspace (rev s))"
    by (simp only: rev_append)
  also have "\<dots> = s"
    by (simp only: takeWhile_dropWhile_id rev_rev_ident)
  finally show ?thesis by (simp add: rstrip_def)
qed

lemma lstrip_decomp: "s = takeWhile py_isspace s @ lstrip s"
  by (simp add: lstrip_def)

lemma lstrip_lstrip: "lstrip (lstrip s) = lstrip s"
  unfolding lstrip_def by (induction s) auto

lemma rstrip_rstrip: "rstrip (rstrip s) = rstrip s"
proof -
  have "dropWhile py_isspace (dropWhile py_isspace (rev s)) = dropWhile py_isspace (rev s)"
    using lstrip_lstrip [of "rev s"] by (simp add: lstrip_def)
  then show ?thesis by (simp add: rstrip_def)
qed

lemma lstrip_fixed_iff: "lstrip t = t \<longleftrightarrow> t = [] \<or> \<not> py_isspace (hd t)"
  by (simp add: lstrip_def dropWhile_eq_self_iff)

lemma lstrip_rstrip_fixed:
  assumes "lstrip t = t"
  shows "lstrip (rstrip t) = rstrip t"
proof (cases "rstrip t = []")
  case True
  then show ?thesis by (simp add: lstrip_def)
next
  case False
  have t: "t = rstrip t @ rev (takeWhile py_isspace (rev t))" by (rule rstrip_decomp)
  from False t have "hd t = hd (rstrip t)" by (metis hd_append2)
  moreover from False t have "t \<noteq> []" by auto
  ultimately have "\<not> py_isspace (hd (rstrip t))" using assms by (simp add: lstrip_fixed_iff)
  then show ?thesis by (simp add: lstrip_fixed_iff)
qed

lemma strip_strip: "strip (strip s) = strip s"
  by (simp add: strip_def lstrip_rstrip_fixed lstrip_lstrip rstrip_rstrip)

lemma lstrip_strip: "lstrip (strip s) = strip s"
  by (simp add: strip_def lstrip_rstrip_fixed lstrip_lstrip)

lemma rstrip_strip: "rstrip (strip s) = strip s"
  by (simp add: strip_def rstrip_rstrip)

lemma strip_decomp:
  "s = takeWhile py_isspace s @ strip s @ rev (takeWhile py_isspace (rev (lstrip s)))"
proof -
  have "lstrip s = strip s @ rev (takeWhile py_isspace (rev (lstrip s)))"
    unfolding strip_def by (rule rstrip_decomp)
  then show ?thesis using lstrip_decomp [of s] by simp
qed

lemma length_join_chars: "length (join '' '' (chars t)) = 2 * length t - 1"
  by (induction t rule: induct_list012) (simp_all add: chars_def)

lemma join_chars_even: "i < length t \<Longrightarrow> join '' '' (chars t) ! (2 * i) = t ! i"
proof (induction t arbitrary: i rule: induct_list012)
  case 1
  then show ?case by simp
next
  case (2 x)
  then show ?case by (simp add: chars_def)
next
  case (3 x y zs)
  show ?case
  proof (cases i)
    case 0
    then show ?thesis by (simp add: chars_def)
  next
    case (Suc j)
    with 3 show ?thesis by (simp add: chars_def)
  qed
qed

lemma join_chars_odd: "Suc i < length t \<Longrightarrow> join '' '' (chars t) ! Suc (2 * i) = CHR '' ''"
proof (induction t arbitrary: i rule: induct_list012)
  case 1
  then show ?case by simp
next
  case (2 x)
  then show ?case by simp
next
  case (3 x y zs)
  show ?case
  proof (cases i)
    case 0
    then show ?thesis by (simp add: chars_def)
  next
    case (Suc j)
    with 3 show ?thesis by (simp add: chars_def)
  qed
qed

lemma join_chars_Nil_iff: "join sep (chars t) = [] \<longleftrightarrow> t = []"
  by (induction t rule: induct_list012) (simp_all add: chars_def)

lemma upper_char_not_Nil: "upper_char c \<noteq> []"
  by (simp add: upper_char_def Let_def)

lemma upper_Nil_iff: "upper t = [] \<longleftrightarrow> t = []"
  by (cases t) (simp_all add: upper_def upper_char_not_Nil)

lemma sanitize_text_VStr: "sanitize_text (VStr s) = Inr (join '' '' (chars (strip s)))"
  by (simp add: strip_strip)

text \<open>
  Claim C3. On text, \<^verbatim>\<open>sanitize_text\<close> raises nothing and returns the characters of
  the stripped input joined by single spaces. The stripped input is the input without a
  leading and a trailing run of whitespace, and has no whitespace left at either end.
  The result has a character of the stripped input at every even position and a space
  at every odd position.
\<close>

theorem sanitize_text_joins_stripped_characters:
  "sanitize_text (VStr s) = Inr (join '' '' (chars (strip s)))
   \<and> s = takeWhile py_isspace s @ strip s @ rev (takeWhile py_isspace (rev (lstrip s)))
   \<and> lstrip (strip s) = strip s
   \<and> rstrip (strip s) = strip s
   \<and> length (join '' '' (chars (strip s))) = 2 * length (strip s) - 1
   \<and> map (\<lambda>i. join '' '' (chars (strip s)) ! (2 * i)) [0..<length (strip s)] = strip s
   \<and> map (\<lambda>i. join '' '' (chars (strip s)) ! (2 * i + 1)) [0..<length (strip s) - 1]
       = replicate (length (strip s) - 1) CHR '' ''"
proof -
  have even: "map (\<lambda>i. join '' '' (chars (strip s)) ! (2 * i)) [0..<length (strip s)] = strip s"
    by (rule nth_equalityI) (simp_all add: join_chars_even)
  have odd: "map (\<lambda>i. join '' '' (chars (strip s)) ! (2 * i + 1)) [0..<length (strip s) - 1]
       = replicate (length (strip s) - 1) CHR '' ''"
    by (rule nth_equalityI) (simp_all add: join_chars_odd less_diff_conv)
  show ?thesis
    using sanitize_text_VStr [of s] strip_decomp [of s] lstrip_strip [of s] rstrip_strip [of s]
      length_join_chars [of "strip s"] even odd
    by (simp only: simp_thms)
qed


section \<open>Properties of the conversion to float\<close>

lemma bit_length_upper: "n < 2 ^ bit_length n"
proof (induction n rule: bit_length.induct)
  case (1 n)
  show ?case
  proof (cases "n = 0")
    case True
    then show ?thesis by (simp add: bit_length.simps)
  next
    case False
    with 1 have "n div 2 < 2 ^ bit_length (n div 2)" by simp
    then have "n < 2 * 2 ^ bit_length (n div 2)" by linarith
    with False show ?thesis by (simp add: bit_length.simps [of n])
  qed
qed

lemma bit_length_lower: "0 < n \<Longrightarrow> 2 ^ bit_length n \<le> 2 * n"
proof (induction n rule: bit_length.induct)
  case (1 n)
  show ?case
  proof (cases "n div 2 = 0")
    case True
    with 1 have "n = 1" by linarith
    then show ?thesis by (simp add: bit_length.simps)
  next
    case False
    with 1 have "2 ^ bit_length (n div 2) \<le> 2 * (n div 2)" by simp
    then have "2 * 2 ^ bit_length (n div 2) \<le> 2 * n" by linarith
    with 1 show ?thesis by (simp add: bit_length.simps [of n])
  qed
qed

lemma bit_length_one: "bit_length (Suc 0) = Suc 0"
  by (simp add: bit_length.simps)

lemma ilog2_quot_one:
  assumes "0 < a"
  shows "ilog2_quot a 1 = int (bit_length a) - 1"
proof -
  from assms have pos: "0 < bit_length a" by (simp add: bit_length.simps [of a])
  have "(2::nat) * 2 ^ (bit_length a - 1) = 2 ^ bit_length a"
    using pos by (cases "bit_length a") simp_all
  with bit_length_lower [OF assms] have "(2::nat) ^ (bit_length a - 1) \<le> a" by linarith
  moreover have "nat (int (bit_length a) - 1) = bit_length a - 1" by simp
  ultimately show ?thesis using pos by (simp add: ilog2_quot_def bit_length_one)
qed

lemma round_half_even_ge: "a div b \<le> round_half_even a b"
  by (simp add: round_half_even_def Let_def)

text \<open>An integer of magnitude \<open>2^1024\<close> or more has no binary64 value.\<close>

lemma round_binary64_overflow:
  assumes big: "2 ^ 1024 \<le> a"
  shows "round_binary64 a 1 = None"
proof -
  define N :: nat where "N = 1024"
  have bigN: "2 ^ N \<le> a" using big by (simp add: N_def)
  have "(0::nat) < 2 ^ N" by simp
  with bigN have pos: "0 < a" by linarith
  define k where "k = bit_length a - 1"
  from pos have blpos: "0 < bit_length a" by (simp add: bit_length.simps [of a])
  then have bl: "bit_length a = Suc k" by (simp add: k_def)
  have "(2::nat) ^ N < 2 ^ bit_length a"
    using bigN bit_length_upper [of a] by linarith
  then have "N < bit_length a"
    by (simp only: power_strict_increasing_iff one_less_numeral_iff semiring_norm)
  with bl have k: "N \<le> k" by simp
  have lo: "2 ^ k \<le> a" using bit_length_lower [OF pos] bl by simp
  define e where "e = k - 52"
  have ke: "k = 52 + e" using k by (simp add: e_def N_def)
  have il: "ilog2_quot a 1 = int k" using ilog2_quot_one [OF pos] bl by simp
  have emax: "max (int k - 52) (- 1074) = int e" using k by (simp add: e_def N_def)
  define m :: nat where "m = 2 ^ 52"
  have "m * 2 ^ e \<le> a" using lo by (simp add: ke power_add m_def)
  then have "m \<le> a div 2 ^ e"
    by (simp add: less_eq_div_iff_mult_less_eq)
  then have "m \<le> round_half_even a (2 ^ e)"
    using round_half_even_ge [of a "2 ^ e"] by linarith
  then have "m * 2 ^ e \<le> round_half_even a (2 ^ e) * 2 ^ e"
    by simp
  then have "2 ^ k \<le> round_half_even a (2 ^ e) * 2 ^ e" by (simp add: ke power_add m_def)
  moreover have "(2::nat) ^ N \<le> 2 ^ k"
    using k by (simp only: power_increasing_iff one_less_numeral_iff semiring_norm)
  ultimately have "2 ^ N \<le> round_half_even a (2 ^ e) * 2 ^ e" by linarith
  then have "2 ^ 1024 \<le> round_half_even a (2 ^ e) * 2 ^ e" by (simp add: N_def)
  then show ?thesis
    unfolding round_binary64_def il emax Let_def using pos by simp
qed

lemma float_of_int_overflow:
  assumes "2 ^ 1024 \<le> \<bar>i\<bar>"
  shows "float_of_int i = Inl OverflowError"
proof -
  from assms have "2 ^ 1024 \<le> nat \<bar>i\<bar>" by (simp add: le_nat_iff)
  then have "round_binary64 (nat \<bar>i\<bar>) 1 = None" by (rule round_binary64_overflow)
  then show ?thesis unfolding float_of_int_def by simp
qed

lemma round_half_even_one: "round_half_even a (Suc 0) = a"
  by (simp add: round_half_even_def)

text \<open>An integer of magnitude below \<open>2^53\<close> converts to itself.\<close>

lemma round_binary64_exact:
  assumes small: "a < 2 ^ 53"
  shows "\<exists>n e. round_binary64 a 1 = Some (n, e) \<and> ldexp n e = real a"
proof (cases "a = 0")
  case True
  then show ?thesis by (simp add: round_binary64_def ldexp_def)
next
  case False
  then have pos: "0 < a" by simp
  define M :: nat where "M = 53"
  have smallM: "a < 2 ^ M" using small by (simp add: M_def)
  from pos have blpos: "0 < bit_length a" by (simp add: bit_length.simps [of a])
  have "(2::nat) ^ bit_length a \<le> 2 * a" by (rule bit_length_lower [OF pos])
  also have "\<dots> < 2 * 2 ^ M" using smallM by simp
  finally have "(2::nat) ^ bit_length a < 2 ^ Suc M" by simp
  then have "bit_length a < Suc M"
    by (simp only: power_strict_increasing_iff one_less_numeral_iff semiring_norm)
  then have bl: "bit_length a \<le> 53" by (simp add: M_def)
  define d where "d = 53 - bit_length a"
  have il: "ilog2_quot a 1 = int (bit_length a) - 1" by (rule ilog2_quot_one [OF pos])
  have e: "max (int (bit_length a) - 1 - 52) (- 1074) = - int d"
    using bl by (simp add: d_def)
  have rb: "round_binary64 a 1 = Some (a * 2 ^ d, - int d)"
    unfolding round_binary64_def il e Let_def
    using pos small by (cases "d = 0") (simp_all add: round_half_even_one)
  have "ldexp (a * 2 ^ d) (- int d) = real a"
    by (cases "d = 0") (simp_all add: ldexp_def)
  with rb show ?thesis by blast
qed

lemma float_of_int_exact:
  assumes "\<bar>i\<bar> < 2 ^ 53"
  shows "float_of_int i = Inr (Finite (real_of_int i))"
proof -
  from assms have "nat \<bar>i\<bar> < 2 ^ 53" by (simp add: nat_less_iff)
  then obtain n e where r: "round_binary64 (nat \<bar>i\<bar>) 1 = Some (n, e)"
    and v: "ldexp n e = real (nat \<bar>i\<bar>)"
    using round_binary64_exact by blast
  show ?thesis unfolding float_of_int_def r using v by simp
qed

lemmas float_of_int_defs =
  float_of_int_def round_binary64_def ilog2_quot_def round_half_even_def
  bit_length.simps ldexp_def

lemma to_float_Inr_iff: "to_float name v = Inr x \<longleftrightarrow> py_float v = Inr x"
  by (auto simp: to_float_def split: sum.splits pyexc.splits)

lemma to_float_caught:
  "py_float v = Inl TypeError \<or> py_float v = Inl ValueError \<Longrightarrow>
   to_float name v = Inl (InvalidDataError (name @ '' must be a number.''))"
  by (auto simp: to_float_def)

lemma to_float_OverflowError:
  "py_float v = Inl OverflowError \<Longrightarrow> to_float name v = Inl OverflowError"
  by (simp add: to_float_def)

lemma to_float_VFloat: "to_float name (VFloat x) = Inr x"
  by (simp add: to_float_def)

lemma py_float_abc: "py_float (VStr ''abc'') = Inl ValueError"
  by code_simp

text \<open>
  Claim C8. \<^verbatim>\<open>to_float\<close> is to return the number when the conversion succeeds
  and to raise \<^verbatim>\<open>InvalidDataError\<close> naming the field otherwise. For the integer
  \<open>10^400\<close> the conversion fails with \<^verbatim>\<open>OverflowError\<close>, which the
  \<^verbatim>\<open>except\<close> clause does not list: \<^verbatim>\<open>to_float\<close> and the latitude setter
  raise it as it is. The text \<^verbatim>\<open>"abc"\<close> and \<^verbatim>\<open>None\<close> do give
  \<^verbatim>\<open>InvalidDataError\<close> with the message \<^verbatim>\<open>latitude must be a number.\<close>
\<close>

theorem to_float_int_overflow_escapes:
  "py_float (VInt (10 ^ 400)) = Inl OverflowError
   \<and> to_float ''latitude'' (VInt (10 ^ 400)) = Inl OverflowError
   \<and> latitude_setter (VInt (10 ^ 400)) self = (Inl OverflowError, self)
   \<and> to_float ''latitude'' (VStr ''abc'') = Inl (InvalidDataError ''latitude must be a number.'')
   \<and> to_float ''latitude'' VNone = Inl (InvalidDataError ''latitude must be a number.'')"
proof -
  have "(2::int) ^ 1024 \<le> \<bar>10 ^ 400\<bar>" by simp
  then have big: "py_float (VInt (10 ^ 400)) = Inl OverflowError"
    by (simp only: py_float.simps float_of_int_overflow)
  then have tf: "to_float ''latitude'' (VInt (10 ^ 400)) = Inl OverflowError"
    by (rule to_float_OverflowError)
  have "latitude_setter (VInt (10 ^ 400)) self = (Inl OverflowError, self)"
    unfolding latitude_setter_def tf by simp
  moreover have "to_float ''latitude'' (VStr ''abc'') = Inl (InvalidDataError ''latitude must be a number.'')"
    using to_float_caught [of "VStr ''abc''" "''latitude''"] py_float_abc by simp
  moreover have "to_float ''latitude'' VNone = Inl (InvalidDataError ''latitude must be a number.'')"
    by (simp add: to_float_def)
  ultimately show ?thesis using big tf by (simp only: simp_thms)
qed


section \<open>Properties of the setters\<close>

text \<open>
  Every setter either raises and returns the instance as it was, or assigns its own
  attribute a value that passed the guard.
\<close>

lemma text_guard_cases:
  "(case v of VStr s \<Rightarrow> strip s = [] | _ \<Rightarrow> True) \<or> (\<exists>s. v = VStr s \<and> strip s \<noteq> [])"
  by (cases v) simp_all

lemma city_setter_shape:
  "(\<exists>e. city_setter v self = (Inl e, self))
   \<or> (\<exists>t. t \<noteq> [] \<and> city_setter v self = (Inr (), self\<lparr>p_city := Some t\<rparr>))"
proof -
  from text_guard_cases [of v] show ?thesis
  proof
    assume "case v of VStr s \<Rightarrow> strip s = [] | _ \<Rightarrow> True"
    then have "city_setter v self = (Inl (InvalidDataError ''City must be a non-empty string''), self)"
      by (simp add: city_setter_def)
    then show ?thesis by blast
  next
    assume "\<exists>s. v = VStr s \<and> strip s \<noteq> []"
    then obtain s where v: "v = VStr s" and ne: "strip s \<noteq> []" by blast
    let ?t = "join '' '' (chars (strip s))"
    from v ne have "city_setter v self = (Inr (), self\<lparr>p_city := Some ?t\<rparr>)"
      by (simp add: city_setter_def strip_strip)
    moreover from ne have "?t \<noteq> []" by (simp add: join_chars_Nil_iff)
    ultimately show ?thesis by blast
  qed
qed

lemma country_setter_shape:
  "(\<exists>e. country_setter v self = (Inl e, self))
   \<or> (\<exists>t. t \<noteq> [] \<and> country_setter v self = (Inr (), self\<lparr>p_country := Some t\<rparr>))"
proof -
  from text_guard_cases [of v] show ?thesis
  proof
    assume "case v of VStr s \<Rightarrow> strip s = [] | _ \<Rightarrow> True"
    then have "country_setter v self = (Inl (InvalidDataError ''Country must be a non-empty string''), self)"
      by (simp add: country_setter_def)
    then show ?thesis by blast
  next
    assume "\<exists>s. v = VStr s \<and> strip s \<noteq> []"
    then obtain s where v: "v = VStr s" and ne: "strip s \<noteq> []" by blast
    let ?t = "upper (join '' '' (chars (strip s)))"
    from v ne have "country_setter v self = (Inr (), self\<lparr>p_country := Some ?t\<rparr>)"
      by (simp add: country_setter_def strip_strip)
    moreover from ne have "?t \<noteq> []" by (simp add: join_chars_Nil_iff upper_Nil_iff)
    ultimately show ?thesis by blast
  qed
qed

lemma observation_time_setter_shape:
  "(\<exists>e. observation_time_setter v self = (Inl e, self))
   \<or> (\<exists>t. t \<noteq> [] \<and> observation_time_setter v self = (Inr (), self\<lparr>p_observation_time := Some t\<rparr>))"
proof -
  from text_guard_cases [of v] show ?thesis
  proof
    assume "case v of VStr s \<Rightarrow> strip s = [] | _ \<Rightarrow> True"
    then have "observation_time_setter v self = (Inl (InvalidDataError ''Observation time must be a non-empty string''), self)"
      by (simp add: observation_time_setter_def)
    then show ?thesis by blast
  next
    assume "\<exists>s. v = VStr s \<and> strip s \<noteq> []"
    then obtain s where v: "v = VStr s" and ne: "strip s \<noteq> []" by blast
    let ?t = "join '' '' (chars (strip s))"
    from v ne have "observation_time_setter v self = (Inr (), self\<lparr>p_observation_time := Some ?t\<rparr>)"
      by (simp add: observation_time_setter_def strip_strip)
    moreover from ne have "?t \<noteq> []" by (simp add: join_chars_Nil_iff)
    ultimately show ?thesis by blast
  qed
qed

lemma latitude_setter_shape:
  "(\<exists>e. latitude_setter v self = (Inl e, self))
   \<or> (\<exists>x. fle (Finite (- 90)) x \<and> fle x (Finite 90)
          \<and> latitude_setter v self = (Inr (), self\<lparr>p_latitude := Some x\<rparr>))"
  by (cases "to_float ''latitude'' v") (auto simp: latitude_setter_def)

lemma longitude_setter_shape:
  "(\<exists>e. longitude_setter v self = (Inl e, self))
   \<or> (\<exists>x. fle (Finite (- 180)) x \<and> fle x (Finite 180)
          \<and> longitude_setter v self = (Inr (), self\<lparr>p_longitude := Some x\<rparr>))"
  by (cases "to_float ''Longitude'' v") (auto simp: longitude_setter_def)

lemma temperature_c_setter_shape:
  "(\<exists>e. temperature_c_setter v self = (Inl e, self))
   \<or> (\<exists>x. fle (Finite (- 100)) x \<and> fle x (Finite 70)
          \<and> temperature_c_setter v self = (Inr (), self\<lparr>p_temperature_c := Some x\<rparr>))"
  by (cases "to_float ''Temperature_c'' v") (auto simp: temperature_c_setter_def)

lemma windspeed_kmh_setter_shape:
  "(\<exists>e. windspeed_kmh_setter v self = (Inl e, self))
   \<or> (\<exists>x. \<not> flt x (Finite 0)
          \<and> windspeed_kmh_setter v self = (Inr (), self\<lparr>p_windspeed_kmh := Some x\<rparr>))"
  by (cases "to_float ''windspeed_kmh'' v") (auto simp: windspeed_kmh_setter_def)

lemma notes_setter_shape:
  "(\<exists>e. notes_setter v self = (Inl e, self))
   \<or> (\<exists>n. notes_setter v self = (Inr (), self\<lparr>p_notes := Some n\<rparr>))"
  by (cases v) (auto simp: notes_setter_def)

lemma setter_raise_keeps_instance:
  assumes "f \<in> set setters" and "fst (f v self) = Inl e"
  shows "snd (f v self) = self"
proof -
  from assms(1) consider "f = city_setter" | "f = country_setter" | "f = latitude_setter"
    | "f = longitude_setter" | "f = temperature_c_setter" | "f = windspeed_kmh_setter"
    | "f = observation_time_setter" | "f = notes_setter"
    by (auto simp: setters_def)
  then show ?thesis
  proof cases
    case 1
    with assms(2) city_setter_shape [of v self] show ?thesis by auto
  next
    case 2
    with assms(2) country_setter_shape [of v self] show ?thesis by auto
  next
    case 3
    with assms(2) latitude_setter_shape [of v self] show ?thesis by auto
  next
    case 4
    with assms(2) longitude_setter_shape [of v self] show ?thesis by auto
  next
    case 5
    with assms(2) temperature_c_setter_shape [of v self] show ?thesis by auto
  next
    case 6
    with assms(2) windspeed_kmh_setter_shape [of v self] show ?thesis by auto
  next
    case 7
    with assms(2) observation_time_setter_shape [of v self] show ?thesis by auto
  next
    case 8
    with assms(2) notes_setter_shape [of v self] show ?thesis by auto
  qed
qed

lemma float_of_int_95: "float_of_int 95 = Inr (Finite 95)"
  by (simp add: float_of_int_defs)

lemma float_of_int_m91: "float_of_int (- 91) = Inr (Finite (- 91))"
  by (simp add: float_of_int_defs)

lemma float_of_int_90: "float_of_int 90 = Inr (Finite 90)"
  by (simp add: float_of_int_defs)

lemma float_of_int_m90: "float_of_int (- 90) = Inr (Finite (- 90))"
  by (simp add: float_of_int_defs)

lemma float_of_int_0: "float_of_int 0 = Inr (Finite 0)"
  by (simp add: float_of_int_defs)

text \<open>
  Once \<^verbatim>\<open>to_float\<close> has returned the coerced value, the latitude setter raises exactly
  when that value is not within \<open>-90\<close> and \<open>90\<close> by Python's chained \<^verbatim>\<open><=\<close>; what
  it raises is \<^verbatim>\<open>InvalidDataError\<close>, and otherwise it stores the coerced value. Every
  float is its own coerced value, and every integer of magnitude below \<open>2^53\<close> is
  coerced to itself.
\<close>

lemma latitude_setter_on_coerced_value:
  assumes "to_float ''latitude'' v = Inr x"
  shows
    "(isl (fst (latitude_setter v self)) \<longleftrightarrow> \<not> (fle (Finite (- 90)) x \<and> fle x (Finite 90)))
     \<and> (isl (fst (latitude_setter v self)) \<longrightarrow>
          latitude_setter v self
            = (Inl (InvalidDataError ''Latitude must be between -90 and 90''), self))
     \<and> (\<not> isl (fst (latitude_setter v self)) \<longrightarrow>
          latitude_setter v self = (Inr (), self\<lparr>p_latitude := Some x\<rparr>))
     \<and> to_float ''latitude'' (VFloat y) = Inr y
     \<and> (\<bar>i\<bar> < 2 ^ 53 \<longrightarrow> to_float ''latitude'' (VInt i) = Inr (Finite (real_of_int i)))"
  using assms
  by (simp add: latitude_setter_def to_float_def float_of_int_exact)

text \<open>
  Claim C6. A latitude outside \<open>[-90, 90]\<close> is to raise \<^verbatim>\<open>InvalidDataError\<close>. The
  integer \<open>10^400\<close> is above 90, and the setter raises \<^verbatim>\<open>OverflowError\<close> for it: the
  conversion in \<^verbatim>\<open>to_float\<close> fails before the range is looked at, with an exception
  that \<^verbatim>\<open>to_float\<close> does not catch. 95 and \<open>-91\<close> do raise
  \<^verbatim>\<open>InvalidDataError\<close>, and the bounds \<open>-90\<close> and 90 are stored and read back.
\<close>

theorem latitude_setter_int_overflow_escapes:
  "latitude_setter (VInt (10 ^ 400)) self = (Inl OverflowError, self)
   \<and> \<not> ((10 ^ 400 :: int) \<le> 90)
   \<and> latitude_setter (VInt 95) self
        = (Inl (InvalidDataError ''Latitude must be between -90 and 90''), self)
   \<and> latitude_setter (VInt (- 91)) self
        = (Inl (InvalidDataError ''Latitude must be between -90 and 90''), self)
   \<and> latitude_setter (VFloat (Finite 95)) self
        = (Inl (InvalidDataError ''Latitude must be between -90 and 90''), self)
   \<and> latitude_setter (VInt (- 90)) self = (Inr (), self\<lparr>p_latitude := Some (Finite (- 90))\<rparr>)
   \<and> latitude_setter (VInt 90) self = (Inr (), self\<lparr>p_latitude := Some (Finite 90)\<rparr>)
   \<and> latitude_setter (VFloat (Finite 90)) self
        = (Inr (), self\<lparr>p_latitude := Some (Finite 90)\<rparr>)
   \<and> latitude_getter (snd (latitude_setter (VInt 90) self)) = Inr (VFloat (Finite 90))"
proof -
  have "(2::int) ^ 1024 \<le> \<bar>10 ^ 400\<bar>" by simp
  then have "py_float (VInt (10 ^ 400)) = Inl OverflowError"
    by (simp only: py_float.simps float_of_int_overflow)
  then have tf: "to_float ''latitude'' (VInt (10 ^ 400)) = Inl OverflowError"
    by (rule to_float_OverflowError)
  have big: "latitude_setter (VInt (10 ^ 400)) self = (Inl OverflowError, self)"
    unfolding latitude_setter_def tf by simp
  have above: "\<not> ((10 ^ 400 :: int) \<le> 90)" by simp
  have rest:
    "latitude_setter (VInt 95) self
        = (Inl (InvalidDataError ''Latitude must be between -90 and 90''), self)
     \<and> latitude_setter (VInt (- 91)) self
        = (Inl (InvalidDataError ''Latitude must be between -90 and 90''), self)
     \<and> latitude_setter (VFloat (Finite 95)) self
        = (Inl (InvalidDataError ''Latitude must be between -90 and 90''), self)
     \<and> latitude_setter (VInt (- 90)) self = (Inr (), self\<lparr>p_latitude := Some (Finite (- 90))\<rparr>)
     \<and> latitude_setter (VInt 90) self = (Inr (), self\<lparr>p_latitude := Some (Finite 90)\<rparr>)
     \<and> latitude_setter (VFloat (Finite 90)) self
        = (Inr (), self\<lparr>p_latitude := Some (Finite 90)\<rparr>)
     \<and> latitude_getter (snd (latitude_setter (VInt 90) self)) = Inr (VFloat (Finite 90))"
    by (simp add: latitude_setter_def latitude_getter_def to_float_def
        float_of_int_95 float_of_int_m91 float_of_int_90 float_of_int_m90)
  from big above rest show ?thesis by blast
qed

text \<open>
  Once \<^verbatim>\<open>to_float\<close> has returned the coerced value, the windspeed setter raises exactly
  when that value is \<^verbatim>\<open>< 0\<close>; what it raises is \<^verbatim>\<open>InvalidDataError\<close>, and otherwise
  it stores the coerced value.
\<close>

lemma windspeed_setter_on_coerced_value:
  assumes "to_float ''windspeed_kmh'' v = Inr x"
  shows
    "(isl (fst (windspeed_kmh_setter v self)) \<longleftrightarrow> flt x (Finite 0))
     \<and> (isl (fst (windspeed_kmh_setter v self)) \<longrightarrow>
          windspeed_kmh_setter v self
            = (Inl (InvalidDataError ''Windspeed cannot be negative''), self))
     \<and> (\<not> isl (fst (windspeed_kmh_setter v self)) \<longrightarrow>
          windspeed_kmh_setter v self = (Inr (), self\<lparr>p_windspeed_kmh := Some x\<rparr>))
     \<and> to_float ''windspeed_kmh'' (VFloat y) = Inr y
     \<and> (\<bar>i\<bar> < 2 ^ 53 \<longrightarrow>
          to_float ''windspeed_kmh'' (VInt i) = Inr (Finite (real_of_int i)))"
  using assms
  by (simp add: windspeed_kmh_setter_def to_float_def float_of_int_exact)

text \<open>
  Claim C7. A negative windspeed is to raise \<^verbatim>\<open>InvalidDataError\<close>. The integer
  \<open>-(10^400)\<close> is negative, and the setter raises \<^verbatim>\<open>OverflowError\<close> for it, which
  \<^verbatim>\<open>to_float\<close> does not catch. \<open>-0.1\<close> does raise \<^verbatim>\<open>InvalidDataError\<close>, and 0 is
  stored and read back.
\<close>

theorem windspeed_setter_int_overflow_escapes:
  "windspeed_kmh_setter (VInt (- (10 ^ 400))) self = (Inl OverflowError, self)
   \<and> (- (10 ^ 400) :: int) < 0
   \<and> windspeed_kmh_setter (VFloat (Finite (- 0.1))) self
        = (Inl (InvalidDataError ''Windspeed cannot be negative''), self)
   \<and> windspeed_kmh_setter (VInt 0) self = (Inr (), self\<lparr>p_windspeed_kmh := Some (Finite 0)\<rparr>)
   \<and> windspeed_kmh_setter (VFloat (Finite 0)) self
        = (Inr (), self\<lparr>p_windspeed_kmh := Some (Finite 0)\<rparr>)
   \<and> windspeed_kmh_getter (snd (windspeed_kmh_setter (VInt 0) self)) = Inr (VFloat (Finite 0))"
proof -
  have "(2::int) ^ 1024 \<le> \<bar>- (10 ^ 400)\<bar>" by simp
  then have "py_float (VInt (- (10 ^ 400))) = Inl OverflowError"
    by (simp only: py_float.simps float_of_int_overflow)
  then have tf: "to_float ''windspeed_kmh'' (VInt (- (10 ^ 400))) = Inl OverflowError"
    by (rule to_float_OverflowError)
  have big: "windspeed_kmh_setter (VInt (- (10 ^ 400))) self = (Inl OverflowError, self)"
    unfolding windspeed_kmh_setter_def tf by simp
  have below: "(- (10 ^ 400) :: int) < 0" by simp
  have rest:
    "windspeed_kmh_setter (VFloat (Finite (- 0.1))) self
        = (Inl (InvalidDataError ''Windspeed cannot be negative''), self)
     \<and> windspeed_kmh_setter (VInt 0) self = (Inr (), self\<lparr>p_windspeed_kmh := Some (Finite 0)\<rparr>)
     \<and> windspeed_kmh_setter (VFloat (Finite 0)) self
        = (Inr (), self\<lparr>p_windspeed_kmh := Some (Finite 0)\<rparr>)
     \<and> windspeed_kmh_getter (snd (windspeed_kmh_setter (VInt 0) self)) = Inr (VFloat (Finite 0))"
    by (simp add: windspeed_kmh_setter_def windspeed_kmh_getter_def to_float_def float_of_int_0)
  from big below rest show ?thesis by blast
qed

text \<open>
  The body of the notes setter, under the header with the parameters \<^verbatim>\<open>self\<close> and
  \<^verbatim>\<open>value\<close>: it stores \<^verbatim>\<open>None\<close> for \<^verbatim>\<open>None\<close>, stores the sanitized text for
  text, and raises \<^verbatim>\<open>InvalidDataError\<close> for every other value.
\<close>

lemma notes_setter_body:
  "notes_setter VNone self = (Inr (), self\<lparr>p_notes := Some None\<rparr>)
   \<and> notes_getter (snd (notes_setter VNone self)) = Inr VNone
   \<and> (\<exists>t. sanitize_text (VStr s) = Inr t
          \<and> notes_setter (VStr s) self = (Inr (), self\<lparr>p_notes := Some (Some t)\<rparr>)
          \<and> notes_getter (snd (notes_setter (VStr s) self)) = Inr (VStr t))
   \<and> (v \<noteq> VNone \<and> \<not> isinstance_str v \<longrightarrow>
        notes_setter v self = (Inl (InvalidDataError ''Notes must be a string or None''), self))
   \<and> notes_setter (VInt 5) self
        = (Inl (InvalidDataError ''Notes must be a string or None''), self)"
  by (cases v) (simp_all add: notes_setter_def notes_getter_def)

text \<open>
  Claim C10. Whenever one of the eight setters raises, whatever the exception, the
  instance it leaves behind is the instance it was called on.
\<close>

theorem failed_setter_leaves_instance_unchanged:
  "f \<in> set setters \<Longrightarrow> fst (f v self) = Inl e \<Longrightarrow> snd (f v self) = self"
  by (rule setter_raise_keeps_instance)

theorem failed_setter_leaves_instance_unchanged_witness:
  "latitude_setter \<in> set setters
   \<and> fst (latitude_setter (VFloat (Finite 95)) fresh_instance)
       = Inl (InvalidDataError ''Latitude must be between -90 and 90'')
   \<and> snd (latitude_setter (VFloat (Finite 95)) fresh_instance) = fresh_instance"
proof -
  have m: "latitude_setter \<in> set setters" by (simp add: setters_def)
  have r: "fst (latitude_setter (VFloat (Finite 95)) fresh_instance)
      = Inl (InvalidDataError ''Latitude must be between -90 and 90'')"
    by (simp add: latitude_setter_def to_float_def)
  show ?thesis
    using m r failed_setter_leaves_instance_unchanged [OF m r] by simp
qed


section \<open>Construction and live instances\<close>

lemma and_then_Inr_iff:
  "and_then f g s = (Inr u, s') \<longleftrightarrow> (\<exists>s1. f s = (Inr (), s1) \<and> g s1 = (Inr u, s'))"
  by (auto simp: and_then_def split: prod.splits sum.splits)

text \<open>Every setter keeps the guarded constraints of an instance, raising or not.\<close>

lemma setter_keeps_guarded:
  assumes g: "guarded self" and f: "f \<in> set setters"
  shows "guarded (snd (f v self))"
proof -
  from f consider "f = city_setter" | "f = country_setter" | "f = latitude_setter"
    | "f = longitude_setter" | "f = temperature_c_setter" | "f = windspeed_kmh_setter"
    | "f = observation_time_setter" | "f = notes_setter"
    by (auto simp: setters_def)
  then show ?thesis
  proof cases
    case 1
    with g city_setter_shape [of v self] show ?thesis
      by (auto simp: guarded_def text_ok_def)
  next
    case 2
    with g country_setter_shape [of v self] show ?thesis
      by (auto simp: guarded_def text_ok_def)
  next
    case 3
    with g latitude_setter_shape [of v self] show ?thesis
      by (auto simp: guarded_def in_bounds_def)
  next
    case 4
    with g longitude_setter_shape [of v self] show ?thesis
      by (auto simp: guarded_def in_bounds_def)
  next
    case 5
    with g temperature_c_setter_shape [of v self] show ?thesis
      by (auto simp: guarded_def in_bounds_def)
  next
    case 6
    with g windspeed_kmh_setter_shape [of v self] show ?thesis
      by (auto simp: guarded_def not_below_zero_def)
  next
    case 7
    with g observation_time_setter_shape [of v self] show ?thesis
      by (auto simp: guarded_def text_ok_def)
  next
    case 8
    with g notes_setter_shape [of v self] show ?thesis
      by (auto simp: guarded_def assigned_def)
  qed
qed

text \<open>A construction that returns an instance has run all eight setters without a raise.\<close>

lemma constructed_guarded:
  assumes "new_WeatherObservation c k la lo t w ot n = Inr self"
  shows "guarded self"
proof -
  define n' where "n' = (case n of None \<Rightarrow> VNone | Some x \<Rightarrow> x)"
  from assms have "init c k la lo t w ot n' fresh_instance = (Inr (), self)"
    by (auto simp: new_WeatherObservation_def n'_def split: prod.splits sum.splits)
  then obtain s1 s2 s3 s4 s5 s6 s7 where
    a1: "city_setter c fresh_instance = (Inr (), s1)" and
    a2: "country_setter k s1 = (Inr (), s2)" and
    a3: "latitude_setter la s2 = (Inr (), s3)" and
    a4: "longitude_setter lo s3 = (Inr (), s4)" and
    a5: "temperature_c_setter t s4 = (Inr (), s5)" and
    a6: "windspeed_kmh_setter w s5 = (Inr (), s6)" and
    a7: "observation_time_setter ot s6 = (Inr (), s7)" and
    a8: "notes_setter n' s7 = (Inr (), self)"
    unfolding init_def and_then_Inr_iff by blast
  from a1 city_setter_shape [of c fresh_instance]
  obtain x1 where b1: "x1 \<noteq> []" "s1 = fresh_instance\<lparr>p_city := Some x1\<rparr>" by auto
  from a2 country_setter_shape [of k s1]
  obtain x2 where b2: "x2 \<noteq> []" "s2 = s1\<lparr>p_country := Some x2\<rparr>" by auto
  from a3 latitude_setter_shape [of la s2]
  obtain x3 where b3: "fle (Finite (- 90)) x3" "fle x3 (Finite 90)"
    "s3 = s2\<lparr>p_latitude := Some x3\<rparr>" by auto
  from a4 longitude_setter_shape [of lo s3]
  obtain x4 where b4: "fle (Finite (- 180)) x4" "fle x4 (Finite 180)"
    "s4 = s3\<lparr>p_longitude := Some x4\<rparr>" by auto
  from a5 temperature_c_setter_shape [of t s4]
  obtain x5 where b5: "fle (Finite (- 100)) x5" "fle x5 (Finite 70)"
    "s5 = s4\<lparr>p_temperature_c := Some x5\<rparr>" by auto
  from a6 windspeed_kmh_setter_shape [of w s5]
  obtain x6 where b6: "\<not> flt x6 (Finite 0)" "s6 = s5\<lparr>p_windspeed_kmh := Some x6\<rparr>" by auto
  from a7 observation_time_setter_shape [of ot s6]
  obtain x7 where b7: "x7 \<noteq> []" "s7 = s6\<lparr>p_observation_time := Some x7\<rparr>" by auto
  from a8 notes_setter_shape [of n' s7]
  obtain x8 where b8: "self = s7\<lparr>p_notes := Some x8\<rparr>" by auto
  show ?thesis
    unfolding b8 b7 b6 b5 b4 b3 b2 b1
    using b1(1) b2(1) b3(1,2) b4(1,2) b5(1,2) b6(1) b7(1)
    by (simp add: guarded_def text_ok_def in_bounds_def not_below_zero_def assigned_def)
qed

text \<open>
  What holds of every live instance: each attribute is assigned; city, country and
  observation time are text that is not empty; latitude, longitude and temperature
  lie within their bounds; windspeed is not \<^verbatim>\<open>< 0\<close>.
\<close>

lemma live_guarded: "live self \<Longrightarrow> guarded self"
proof (induction rule: live.induct)
  case (constructed c k la lo t w ot n self)
  then show ?case by (rule constructed_guarded)
next
  case (mutated self f v)
  then show ?case by (simp add: setter_keeps_guarded)
qed

text \<open>On a live instance \<^verbatim>\<open>to_dict\<close> raises nothing.\<close>

lemma live_to_dict: "live self \<Longrightarrow> \<exists>d. to_dict self = Inr d"
proof -
  assume "live self"
  then have "guarded self" by (rule live_guarded)
  then show ?thesis
    by (auto simp: guarded_def text_ok_def in_bounds_def not_below_zero_def assigned_def
        to_dict_def city_getter_def country_getter_def latitude_getter_def
        longitude_getter_def temperature_c_getter_def windspeed_kmh_getter_def
        observation_time_getter_def notes_getter_def split: option.splits)
qed

lemmas text_defs =
  strip_def lstrip_def rstrip_def py_isspace_def chars_def upper_def upper_char_def
  char_of_eq_iff

lemmas setter_defs =
  city_setter_def country_setter_def latitude_setter_def longitude_setter_def
  temperature_c_setter_def windspeed_kmh_setter_def observation_time_setter_def
  notes_setter_def

lemmas getter_defs =
  city_getter_def country_getter_def latitude_getter_def longitude_getter_def
  temperature_c_getter_def windspeed_kmh_getter_def observation_time_getter_def
  notes_getter_def

lemmas construct_defs =
  new_WeatherObservation_def init_def and_then_def fresh_instance_def to_float_def

text \<open>
  Claim C2. The construction of the Paris scenario succeeds, and \<^verbatim>\<open>to_dict\<close> then
  returns the eight keys in order. The numbers and \<^verbatim>\<open>None\<close> come back as given;
  the three texts come back with a space between every two characters, the country
  in upper case: \<^verbatim>\<open>"P a r i s"\<close> and \<^verbatim>\<open>"F R"\<close>, not \<^verbatim>\<open>"Paris"\<close> and
  \<^verbatim>\<open>"FR"\<close>.
\<close>

theorem paris_scenario_to_dict_is_spaced:
  "(case new_WeatherObservation (VStr ''Paris'') (VStr ''fr'') (VFloat (Finite 48.8566))
           (VFloat (Finite 2.3522)) (VFloat (Finite 18.0)) (VFloat (Finite 12.5))
           (VStr ''2024-05-01T12:00:00Z'') None of
      Inl e \<Rightarrow> Inl e
    | Inr self \<Rightarrow> to_dict self) =
   Inr [(''city'', VStr ''P a r i s''), (''country'', VStr ''F R''),
        (''latitude'', VFloat (Finite 48.8566)), (''longitude'', VFloat (Finite 2.3522)),
        (''temperature_c'', VFloat (Finite 18.0)), (''windspeed_kmh'', VFloat (Finite 12.5)),
        (''observation_time'', VStr ''2 0 2 4 - 0 5 - 0 1 T 1 2 : 0 0 : 0 0 Z''),
        (''notes'', VNone)]"
  by (simp add: construct_defs setter_defs getter_defs text_defs to_dict_def)

text \<open>
  Claim C4. Setting the country to \<^verbatim>\<open>"us"\<close> succeeds on any instance; what the
  getter and \<^verbatim>\<open>to_dict\<close> then report is \<^verbatim>\<open>"U S"\<close>, with a space, not
  \<^verbatim>\<open>"US"\<close>.
\<close>

theorem country_us_is_stored_spaced:
  "country_setter (VStr ''us'') self = (Inr (), self\<lparr>p_country := Some ''U S''\<rparr>)
   \<and> country_getter (snd (country_setter (VStr ''us'') self)) = Inr (VStr ''U S'')
   \<and> to_dict (snd (country_setter (VStr ''us'')
        \<lparr>p_city = Some ''P a r i s'', p_country = Some ''F R'',
         p_latitude = Some (Finite 48.8566), p_longitude = Some (Finite 2.3522),
         p_temperature_c = Some (Finite 18.0), p_windspeed_kmh = Some (Finite 12.5),
         p_observation_time = Some ''2 0 2 4 - 0 5 - 0 1 T 1 2 : 0 0 : 0 0 Z'',
         p_notes = Some None\<rparr>))
     = Inr [(''city'', VStr ''P a r i s''), (''country'', VStr ''U S''),
        (''latitude'', VFloat (Finite 48.8566)), (''longitude'', VFloat (Finite 2.3522)),
        (''temperature_c'', VFloat (Finite 18.0)), (''windspeed_kmh'', VFloat (Finite 12.5)),
        (''observation_time'', VStr ''2 0 2 4 - 0 5 - 0 1 T 1 2 : 0 0 : 0 0 Z''),
        (''notes'', VNone)]"
  by (simp add: setter_defs getter_defs text_defs to_dict_def)


section \<open>Valid and invalid field values\<close>


































end
